theory Spec2Isabelle
  imports Main "HOL-Library.Finite_Map"
begin

section \<open>Data model\<close>

text \<open>
  Modelled from the spec: the message type \<^verbatim>\<open>UIMessage\<close> (module \<^verbatim>\<open>ui-messages\<close>) with its
  parts, as section 3 describes them: an id, a role and an ordered list of typed parts.
  A tool invocation carries the number of the step it belongs to, which
  \<^verbatim>\<open>extractMaxToolInvocationStep\<close> reads. Results, arguments and payloads are strings.
  The client itself reads only the id and the role of a message.
\<close>

datatype role = User | Assistant | System

datatype tool_state = InputStreaming | InputAvailable | OutputAvailable | OutputError

record tool_invocation =
  toolCallId :: string
  toolName :: string
  args :: string
  state :: tool_state
  result :: "string option"
  step :: nat

datatype part =
    TextPart string
  | ReasoningPart string
  | ToolInvocationPart tool_invocation
  | DataPart string string
  | SourcePart string
  | FilePart string
  | StepBoundary

record message =
  msg_id :: string
  role :: role
  parts :: "part list"

text \<open>\<^verbatim>\<open>ChatStatus\<close> of \<^verbatim>\<open>chat/types.ts\<close>.\<close>

datatype chat_status = Submitted | Streaming | Ready | Error

text \<open>
  A thrown JavaScript value, as far as the catch block of \<^verbatim>\<open>triggerRequest\<close> looks at
  it: its \<^verbatim>\<open>name\<close> property and whether it is an \<^verbatim>\<open>instanceof Error\<close>.
\<close>

datatype thrown = Thrown (err_name: string) (instanceofError: bool)

text \<open>
  \<^verbatim>\<open>ActiveResponse\<close> of \<^verbatim>\<open>chat/types.ts\<close>. The streaming state is represented by its
  draft message; an \<^verbatim>\<open>AbortController\<close> is represented by a handle number.
\<close>

record active_response =
  ar_state :: message
  abortController :: "nat option"

datatype request_type = Generate | Resume

text \<open>\<^verbatim>\<open>ChatStoreEvent\<close> of \<^verbatim>\<open>chat-store.ts\<close>.\<close>

datatype event_type = ChatMessagesChanged | ChatStatusChanged

record chat_store_event =
  ev_type :: event_type
  chatId :: string
  ev_error :: "thrown option"

text \<open>
  Everything the client does to the outside world is appended to a trace: events emitted
  to the store's subscribers, calls of \<^verbatim>\<open>transport.submitMessages\<close>, calls of the
  \<^verbatim>\<open>onError\<close> and \<^verbatim>\<open>onFinish\<close> callbacks and calls of \<^verbatim>\<open>abort()\<close> on a controller.
\<close>

datatype effect =
    Emit chat_store_event
  | SubmitMessages request_type string "message list" nat
  | OnError thrown
  | OnFinish message
  | Abort nat

text \<open>
  \<^verbatim>\<open>ReactStateManager\<close> of \<^verbatim>\<open>chat-store.ts\<close>, the implementation of the
  \<^verbatim>\<open>ChatState\<close> contract. \<open>requests\<close> counts the request cycles started so far and
  numbers the transport's answers and the abort controllers; \<open>generated\<close> counts the
  calls of the id generator.
\<close>

record chat =
  chat_id :: string
  messages :: "message list"
  status :: chat_status
  error :: "thrown option"
  activeResponse :: "active_response option"
  trace :: "effect list"
  requests :: nat
  generated :: nat

section \<open>Array helpers\<close>

text \<open>\<^verbatim>\<open>Array.prototype.slice(start, end)\<close> with its treatment of negative and
  out-of-range indices.\<close>

definition slice_index :: "'a list \<Rightarrow> int \<Rightarrow> nat" where
  "slice_index xs i =
     (if i < 0 then nat (max (int (length xs) + i) 0) else min (nat i) (length xs))"

definition slice :: "'a list \<Rightarrow> int \<Rightarrow> int \<Rightarrow> 'a list" where
  "slice xs start end =
     (let s = slice_index xs start; e = slice_index xs end
      in take (e - s) (drop s xs))"

text \<open>\<^verbatim>\<open>slice(start)\<close>: the end defaults to the length.\<close>

definition slice_from :: "'a list \<Rightarrow> int \<Rightarrow> 'a list" where
  "slice_from xs start = drop (slice_index xs start) xs"

text \<open>\<^verbatim>\<open>xs[xs.length - 1]\<close>: \<^verbatim>\<open>undefined\<close> on the empty array.\<close>

definition lastMessage :: "message list \<Rightarrow> message option" where
  "lastMessage ms = (if ms = [] then None else Some (last ms))"

section \<open>The state manager\<close>

definition emit :: "event_type \<Rightarrow> thrown option \<Rightarrow> chat \<Rightarrow> chat" where
  "emit t e c =
     c\<lparr>trace := trace c @ [Emit \<lparr>ev_type = t, chatId = chat_id c, ev_error = e\<rparr>]\<rparr>"

definition setStatus :: "chat_status \<Rightarrow> thrown option \<Rightarrow> chat \<Rightarrow> chat" where
  "setStatus s e c = emit ChatStatusChanged e (c\<lparr>status := s, error := e\<rparr>)"

definition setActiveResponse :: "active_response option \<Rightarrow> chat \<Rightarrow> chat" where
  "setActiveResponse ar c = c\<lparr>activeResponse := ar\<rparr>"

definition setMessages :: "message list \<Rightarrow> chat \<Rightarrow> chat" where
  "setMessages ms c = emit ChatMessagesChanged None (c\<lparr>messages := ms\<rparr>)"

definition pushMessage :: "message \<Rightarrow> chat \<Rightarrow> chat" where
  "pushMessage m c = emit ChatMessagesChanged None (c\<lparr>messages := messages c @ [m]\<rparr>)"

definition popMessage :: "chat \<Rightarrow> chat" where
  "popMessage c = emit ChatMessagesChanged None (c\<lparr>messages := slice (messages c) 0 (- 1)\<rparr>)"

definition replaceMessage :: "int \<Rightarrow> message \<Rightarrow> chat \<Rightarrow> chat" where
  "replaceMessage index m c =
     emit ChatMessagesChanged None
       (c\<lparr>messages := slice (messages c) 0 index @ [m] @ slice_from (messages c) (index + 1)\<rparr>)"

section \<open>Publishing the draft\<close>

text \<open>
  \<open>writeDraft\<close> is the \<^verbatim>\<open>write\<close> closure that \<^verbatim>\<open>runUpdateMessageJob\<close> hands to every job of the stream
  processor. The draft is \<^verbatim>\<open>activeResponse.state.message\<close>, the object the processor
  mutates in place; the model takes its value at the time of the call as an argument.
\<close>

definition writeDraft :: "message \<Rightarrow> chat \<Rightarrow> chat" where
  "writeDraft draft c0 =
     (let c = setStatus Streaming None c0;
          replaceLastMessage =
            (case lastMessage (messages c) of
               None \<Rightarrow> False
             | Some lm \<Rightarrow> msg_id draft = msg_id lm)
      in if replaceLastMessage
         then replaceMessage (int (length (messages c)) - 1) draft c
         else pushMessage draft c)"

section \<open>Helpers of the client that are imported from other modules\<close>

text \<open>
  Modelled from the spec: \<^verbatim>\<open>getToolInvocations\<close> (module \<^verbatim>\<open>get-tool-invocations\<close>), the
  tool invocations of a message in the order of its parts; none for a missing message.
\<close>

fun toolInvocationsOfParts :: "part list \<Rightarrow> tool_invocation list" where
  "toolInvocationsOfParts [] = []"
| "toolInvocationsOfParts (ToolInvocationPart ti # ps) = ti # toolInvocationsOfParts ps"
| "toolInvocationsOfParts (_ # ps) = toolInvocationsOfParts ps"

definition getToolInvocations :: "message option \<Rightarrow> tool_invocation list" where
  "getToolInvocations m = (case m of None \<Rightarrow> [] | Some lm \<Rightarrow> toolInvocationsOfParts (parts lm))"

text \<open>
  Modelled from the spec: \<^verbatim>\<open>extractMaxToolInvocationStep\<close> (module
  \<^verbatim>\<open>extract-max-tool-invocation-step\<close>), "the max tool-invocation step already present in
  the last message"; 0 when there is no invocation.
\<close>

definition extractMaxToolInvocationStep :: "tool_invocation list \<Rightarrow> nat" where
  "extractMaxToolInvocationStep invs = foldr max (map step invs) 0"

text \<open>
  Modelled from the spec: a tool invocation "has reached a terminal state (result or
  error)".
\<close>

definition isTerminal :: "tool_invocation \<Rightarrow> bool" where
  "isTerminal ti = (state ti = OutputAvailable \<or> state ti = OutputError)"

text \<open>
  Modelled from the spec: \<^verbatim>\<open>shouldResubmitMessages\<close> (module \<^verbatim>\<open>should-resubmit-messages\<close>),
  the Resubmission Policy of section 4.4: the last message is from the assistant, every
  tool invocation in it has reached a terminal state, the observed step count strictly
  increased versus before, and the new step count is below the configured maximum.
\<close>

definition shouldResubmitMessages :: "nat \<Rightarrow> nat \<Rightarrow> int \<Rightarrow> message list \<Rightarrow> bool" where
  "shouldResubmitMessages originalMaxToolInvocationStep originalMessageCount maxSteps ms =
     (case lastMessage ms of
        None \<Rightarrow> False
      | Some lm \<Rightarrow>
          role lm = Assistant
          \<and> list_all isTerminal (getToolInvocations (Some lm))
          \<and> originalMaxToolInvocationStep < extractMaxToolInvocationStep (getToolInvocations (Some lm))
          \<and> int (extractMaxToolInvocationStep (getToolInvocations (Some lm))) < maxSteps)"

text \<open>
  Modelled from the spec: \<^verbatim>\<open>isAssistantMessageWithCompletedToolCalls\<close> (module
  \<^verbatim>\<open>should-resubmit-messages\<close>): "the last message is now an assistant message whose
  every tool invocation has a result".
\<close>

definition isAssistantMessageWithCompletedToolCalls :: "message option \<Rightarrow> bool" where
  "isAssistantMessageWithCompletedToolCalls m =
     (case m of
        None \<Rightarrow> False
      | Some lm \<Rightarrow>
          role lm = Assistant
          \<and> list_all (\<lambda>ti. result ti \<noteq> None) (getToolInvocations (Some lm)))"

text \<open>
  Modelled from the spec: \<^verbatim>\<open>updateToolCallResult\<close> (module \<^verbatim>\<open>update-tool-call-result\<close>),
  which "patches the matching tool-invocation part's result into the message list": a
  tool-invocation part with the given tool call id gets the result and the state
  \<open>OutputAvailable\<close>; every other part is left as it is.
\<close>

fun patchPart :: "string \<Rightarrow> string \<Rightarrow> part \<Rightarrow> part" where
  "patchPart tcid r (ToolInvocationPart ti) =
     (if toolCallId ti = tcid
      then ToolInvocationPart (ti\<lparr>state := OutputAvailable, result := Some r\<rparr>)
      else ToolInvocationPart ti)"
| "patchPart tcid r p = p"

definition updateToolCallResult :: "message list \<Rightarrow> string \<Rightarrow> string \<Rightarrow> message list" where
  "updateToolCallResult ms tcid r = map (\<lambda>m. m\<lparr>parts := map (patchPart tcid r) (parts m)\<rparr>) ms"

section \<open>The chat client\<close>

text \<open>
  \<^verbatim>\<open>ChatClient\<close> over the state manager. The operations are modelled as they run when
  nothing else runs in between: each one is a function from the chat before to the chat
  after. The job executor, the transport and the stream processor are outside the
  client; of the first the model keeps that a job runs alone, of the other two what
  they make the client do. A request cycle that is started from inside a job of the
  executor (\<^verbatim>\<open>addToolResult\<close>) is followed up to the call of the transport only.

  What one call of \<^verbatim>\<open>transport.submitMessages\<close> and the processing of its stream do, seen
  from the client: the successive values of the draft at the calls of \<^verbatim>\<open>write\<close>, and
  then either the end of the stream (with the final draft, which \<^verbatim>\<open>onFinish\<close> receives) or
  a thrown value. A transport that fails outright has no drafts and throws.
\<close>

datatype outcome = Finished message | Threw thrown

record script =
  drafts :: "message list"
  outcome :: outcome

text \<open>
  The constructor arguments of \<^verbatim>\<open>ChatClient\<close>. The transport answers the \<open>n\<close>-th request,
  of a given type and for a given history, by a script; the id generator answers its
  \<open>n\<close>-th call. \<^verbatim>\<open>createStreamingUIMessageState\<close> (module \<^verbatim>\<open>process-ui-message-stream\<close>) is
  taken as a parameter: it maps the last message and a new id to the initial draft.
\<close>

record env =
  maxSteps :: int
  generateId :: "nat \<Rightarrow> string"
  transport :: "nat \<Rightarrow> request_type \<Rightarrow> message list \<Rightarrow> script"
  createStreamingUIMessageState :: "message option \<Rightarrow> string \<Rightarrow> message"

text \<open>
  \<^verbatim>\<open>ExtendedCallOptions\<close>: whether the callbacks \<^verbatim>\<open>onError\<close> and \<^verbatim>\<open>onFinish\<close> are given.
  Callbacks only leave a mark in the trace. Headers and body go to the transport
  unchanged and are left out.
\<close>

record call_options =
  onError :: bool
  onFinish :: bool

definition noOptions :: call_options where
  "noOptions = \<lparr>onError = False, onFinish = False\<rparr>"

definition logEffect :: "effect \<Rightarrow> chat \<Rightarrow> chat" where
  "logEffect e c = c\<lparr>trace := trace c @ [e]\<rparr>"

text \<open>The two kinds of events that the state manager emits, as trace entries.\<close>

definition statusChanged :: "string \<Rightarrow> thrown option \<Rightarrow> effect" where
  "statusChanged i e = Emit \<lparr>ev_type = ChatStatusChanged, chatId = i, ev_error = e\<rparr>"

definition messagesChanged :: "string \<Rightarrow> effect" where
  "messagesChanged i = Emit \<lparr>ev_type = ChatMessagesChanged, chatId = i, ev_error = None\<rparr>"

text \<open>The trace entries that are network calls.\<close>

fun isSubmitMessages :: "effect \<Rightarrow> bool" where
  "isSubmitMessages (SubmitMessages _ _ _ _) = True"
| "isSubmitMessages _ = False"

fun isOnError :: "effect \<Rightarrow> bool" where
  "isOnError (OnError _) = True"
| "isOnError _ = False"

text \<open>The trace entries of one publish.\<close>

definition publishEffects :: "string \<Rightarrow> effect list" where
  "publishEffects i = [statusChanged i None, messagesChanged i]"

text \<open>
  The \<^verbatim>\<open>try\<close>/\<^verbatim>\<open>catch\<close>/\<^verbatim>\<open>finally\<close> statement of \<^verbatim>\<open>triggerRequest\<close>, entered after the
  status has been set to \<^verbatim>\<open>submitted\<close>. The boolean says whether the function returned
  from inside the statement (the \<^verbatim>\<open>return null\<close> of the abort branch).
\<close>

definition requestCycle :: "env \<Rightarrow> request_type \<Rightarrow> call_options \<Rightarrow> chat \<Rightarrow> chat \<times> bool" where
  "requestCycle env requestType opts c1 =
     (let n = requests c1;
          newMessageId = generateId env (generated c1);
          ar = \<lparr>ar_state = createStreamingUIMessageState env (lastMessage (messages c1)) newMessageId,
                abortController = Some n\<rparr>;
          c2 = setActiveResponse (Some ar) (c1\<lparr>requests := n + 1, generated := generated c1 + 1\<rparr>);
          c3 = logEffect (SubmitMessages requestType (chat_id c2) (messages c2) n) c2;
          sc = transport env n requestType (messages c2);
          c4 = foldl (\<lambda>c d. writeDraft d c) c3 (drafts sc)
      in case outcome sc of
           Finished m \<Rightarrow>
             (setActiveResponse None
                (setStatus Ready None (if onFinish opts then logEffect (OnFinish m) c4 else c4)),
              False)
         | Threw err \<Rightarrow>
             if err_name err = ''AbortError''
             then (setActiveResponse None (setStatus Ready None c4), True)
             else (setActiveResponse None
                     (setStatus Error (Some err)
                        (if onError opts \<and> instanceofError err then logEffect (OnError err) c4 else c4)),
                   False))"

text \<open>The step count that \<^verbatim>\<open>triggerRequest\<close> records before the call.\<close>

definition maxStepOf :: "chat \<Rightarrow> nat" where
  "maxStepOf c = extractMaxToolInvocationStep (getToolInvocations (lastMessage (messages c)))"

function triggerRequest :: "env \<Rightarrow> request_type \<Rightarrow> call_options \<Rightarrow> chat \<Rightarrow> chat" where
  "triggerRequest env requestType opts c =
     (let c1 = setStatus Submitted None c;
          messageCount = length (messages c1);
          maxStep = maxStepOf c1;
          r = requestCycle env requestType opts c1
      in if snd r then fst r
         else if shouldResubmitMessages maxStep messageCount (maxSteps env) (messages (fst r))
         then triggerRequest env requestType opts (fst r)
         else fst r)"
  by pat_completeness auto

text \<open>
  The automatic continuation stops: a new cycle starts only when the step count of the
  last message has grown and is still below \<open>maxSteps\<close>.
\<close>

termination triggerRequest
proof (relation "measure (\<lambda>(env, requestType, opts, c). nat (maxSteps env) - maxStepOf c)")
  show "wf (measure (\<lambda>(env, requestType, opts, c). nat (maxSteps env) - maxStepOf c))"
    by simp
next
  fix env :: env and requestType :: request_type and opts :: call_options and c c1 :: chat
    and messageCount maxStep :: nat and r :: "chat \<times> bool"
  assume c1: "c1 = setStatus Submitted None c"
    and ms: "maxStep = maxStepOf c1"
    and pol: "shouldResubmitMessages maxStep messageCount (maxSteps env) (messages (fst r))"
  from c1 ms have "maxStep = maxStepOf c"
    by (simp add: maxStepOf_def setStatus_def emit_def)
  with pol have "maxStepOf c < maxStepOf (fst r)" and "int (maxStepOf (fst r)) < maxSteps env"
    by (auto simp: shouldResubmitMessages_def maxStepOf_def split: option.splits)
  then show "((env, requestType, opts, fst r), env, requestType, opts, c)
      \<in> measure (\<lambda>(env, requestType, opts, c). nat (maxSteps env) - maxStepOf c)"
    by simp
qed

declare triggerRequest.simps [simp del]

text \<open>
  \<^verbatim>\<open>removeAssistantResponse\<close>. A thrown \<^verbatim>\<open>Error\<close> is returned as its message, together
  with the chat as the throw leaves it.
\<close>

definition removeAssistantResponse :: "chat \<Rightarrow> string option \<times> chat" where
  "removeAssistantResponse c =
     (case lastMessage (messages c) of
        None \<Rightarrow> (Some ''Cannot remove assistant response from empty chat'', c)
      | Some lm \<Rightarrow>
          if role lm \<noteq> Assistant
          then (Some ''Last message is not an assistant message'', c)
          else (None, popMessage c))"

text \<open>\<^verbatim>\<open>CreateUIMessage\<close>: a message whose id may be missing.\<close>

record create_message =
  cm_id :: "string option"
  cm_role :: role
  cm_parts :: "part list"

definition submitMessage :: "env \<Rightarrow> call_options \<Rightarrow> create_message \<Rightarrow> chat \<Rightarrow> chat" where
  "submitMessage env opts m c =
     (let c1 = (case cm_id m of
                  Some i \<Rightarrow> pushMessage \<lparr>msg_id = i, role = cm_role m, parts = cm_parts m\<rparr> c
                | None \<Rightarrow>
                    pushMessage
                      \<lparr>msg_id = generateId env (generated c), role = cm_role m, parts = cm_parts m\<rparr>
                      (c\<lparr>generated := generated c + 1\<rparr>))
      in triggerRequest env Generate opts c1)"

definition resubmitLastUserMessage :: "env \<Rightarrow> call_options \<Rightarrow> chat \<Rightarrow> chat" where
  "resubmitLastUserMessage env opts c =
     (case lastMessage (messages c) of
        None \<Rightarrow> c
      | Some lm \<Rightarrow>
          triggerRequest env Generate opts (if role lm = Assistant then popMessage c else c))"

definition resumeStream :: "env \<Rightarrow> call_options \<Rightarrow> chat \<Rightarrow> chat" where
  "resumeStream env opts c = triggerRequest env Resume opts c"

text \<open>
  The part of \<^verbatim>\<open>triggerRequest\<close> that runs before its first \<^verbatim>\<open>await\<close>: the status is set to
  \<^verbatim>\<open>submitted\<close>, the active response is made and stored, and \<^verbatim>\<open>transport.submitMessages\<close> is
  called.
\<close>

definition triggerRequestCall :: "env \<Rightarrow> request_type \<Rightarrow> chat \<Rightarrow> chat" where
  "triggerRequestCall env requestType c =
     (let c1 = setStatus Submitted None c;
          n = requests c1;
          newMessageId = generateId env (generated c1);
          ar = \<lparr>ar_state = createStreamingUIMessageState env (lastMessage (messages c1)) newMessageId,
                abortController = Some n\<rparr>;
          c2 = setActiveResponse (Some ar) (c1\<lparr>requests := n + 1, generated := generated c1 + 1\<rparr>)
      in logEffect (SubmitMessages requestType (chat_id c2) (messages c2) n) c2)"

text \<open>
  \<^verbatim>\<open>addToolResult\<close>: the body of the job it hands to the job executor, run on the chat as
  the job finds it, up to the point where the job waits for the first time. That is its
  end when it triggers no request, and the call of the transport when it does. The job
  awaits \<^verbatim>\<open>triggerRequest\<close> while it occupies the chat's job executor, and the writes of the
  stream are jobs of the same executor; what becomes of the request after the call
  depends on the executor and the stream processor and is not part of this function.
\<close>

definition addToolResult :: "env \<Rightarrow> string \<Rightarrow> string \<Rightarrow> chat \<Rightarrow> chat" where
  "addToolResult env tcid r c =
     (let c1 = setMessages (updateToolCallResult (messages c) tcid r) c
      in if status c1 = Submitted \<or> status c1 = Streaming then c1
         else if isAssistantMessageWithCompletedToolCalls (lastMessage (messages c1))
         then triggerRequestCall env Generate c1
         else c1)"

definition stopStream :: "chat \<Rightarrow> chat" where
  "stopStream c =
     (if status c \<noteq> Streaming \<and> status c \<noteq> Submitted then c
      else case activeResponse c of
             None \<Rightarrow> c
           | Some ar \<Rightarrow>
               (case abortController ar of
                  None \<Rightarrow> c
                | Some h \<Rightarrow>
                    (logEffect (Abort h) c)\<lparr>activeResponse := Some (ar\<lparr>abortController := None\<rparr>)\<rparr>))"

section \<open>The chat store\<close>

text \<open>
  \<^verbatim>\<open>ChatStore\<close> of \<^verbatim>\<open>chat-store.ts\<close>: a map from chat ids to chats. The configuration that
  the store hands to every client it creates is the \<open>env\<close> argument of the operations.
\<close>

record store =
  chats :: "(string, chat) fmap"

definition newChatClient :: "string \<Rightarrow> message list \<Rightarrow> chat" where
  "newChatClient i ms =
     \<lparr>chat_id = i, messages = ms, status = Ready, error = None, activeResponse = None,
      trace = [], requests = 0, generated = 0\<rparr>"

definition hasChat :: "store \<Rightarrow> string \<Rightarrow> bool" where
  "hasChat s i = (fmlookup (chats s) i \<noteq> None)"

definition addChat :: "string \<Rightarrow> message list \<Rightarrow> store \<Rightarrow> store" where
  "addChat i ms s = s\<lparr>chats := fmupd i (newChatClient i ms) (chats s)\<rparr>"

definition chatCount :: "store \<Rightarrow> nat" where
  "chatCount s = fcard (fmdom (chats s))"

definition getClient :: "store \<Rightarrow> string \<Rightarrow> chat \<times> store" where
  "getClient s i =
     (case fmlookup (chats s) i of
        None \<Rightarrow> (newChatClient i [], s\<lparr>chats := fmupd i (newChatClient i []) (chats s)\<rparr>)
      | Some c \<Rightarrow> (c, s))"

text \<open>The chat objects are mutable: what an operation does to a chat is stored back.\<close>

definition onClient :: "(chat \<Rightarrow> chat) \<Rightarrow> string \<Rightarrow> store \<Rightarrow> store" where
  "onClient f i s =
     (let (c, s1) = getClient s i in s1\<lparr>chats := fmupd i (f c) (chats s1)\<rparr>)"

definition getStatus :: "store \<Rightarrow> string \<Rightarrow> chat_status \<times> store" where
  "getStatus s i = (let (c, s1) = getClient s i in (status c, s1))"

definition setStatus_store :: "string \<Rightarrow> chat_status \<Rightarrow> thrown option \<Rightarrow> store \<Rightarrow> store" where
  "setStatus_store i st e s =
     (let (c, s1) = getClient s i
      in if status c = st then s1
         else s1\<lparr>chats := fmupd i (setStatus st e c) (chats s1)\<rparr>)"

definition getError :: "store \<Rightarrow> string \<Rightarrow> thrown option \<times> store" where
  "getError s i = (let (c, s1) = getClient s i in (error c, s1))"

definition getMessages :: "store \<Rightarrow> string \<Rightarrow> message list \<times> store" where
  "getMessages s i = (let (c, s1) = getClient s i in (messages c, s1))"

definition getLastMessage :: "store \<Rightarrow> string \<Rightarrow> message option \<times> store" where
  "getLastMessage s i = (let (c, s1) = getClient s i in (lastMessage (messages c), s1))"

definition setMessages_store :: "string \<Rightarrow> message list \<Rightarrow> store \<Rightarrow> store" where
  "setMessages_store i ms s = onClient (setMessages ms) i s"

definition removeAssistantResponse_store :: "string \<Rightarrow> store \<Rightarrow> string option \<times> store" where
  "removeAssistantResponse_store i s =
     (let (c, s1) = getClient s i; (e, c') = removeAssistantResponse c
      in (e, s1\<lparr>chats := fmupd i c' (chats s1)\<rparr>))"

definition submitMessage_store ::
  "env \<Rightarrow> string \<Rightarrow> call_options \<Rightarrow> create_message \<Rightarrow> store \<Rightarrow> store" where
  "submitMessage_store env i opts m s = onClient (submitMessage env opts m) i s"

definition resubmitLastUserMessage_store :: "env \<Rightarrow> string \<Rightarrow> call_options \<Rightarrow> store \<Rightarrow> store" where
  "resubmitLastUserMessage_store env i opts s = onClient (resubmitLastUserMessage env opts) i s"

definition resumeStream_store :: "env \<Rightarrow> string \<Rightarrow> call_options \<Rightarrow> store \<Rightarrow> store" where
  "resumeStream_store env i opts s = onClient (resumeStream env opts) i s"

definition addToolResult_store :: "env \<Rightarrow> string \<Rightarrow> string \<Rightarrow> string \<Rightarrow> store \<Rightarrow> store" where
  "addToolResult_store env i tcid r s = onClient (addToolResult env tcid r) i s"

definition stopStream_store :: "string \<Rightarrow> store \<Rightarrow> store" where
  "stopStream_store i s = onClient stopStream i s"

section \<open>Scenarios\<close>

text \<open>Concrete messages, transports and chats on which the theorems below are run.\<close>

definition userHi :: message where
  "userHi = \<lparr>msg_id = ''u1'', role = User, parts = [TextPart ''hi'']\<rparr>"

definition draftHel :: message where
  "draftHel = \<lparr>msg_id = ''a1'', role = Assistant, parts = [TextPart ''Hel'']\<rparr>"

definition draftHello :: message where
  "draftHello = \<lparr>msg_id = ''a1'', role = Assistant, parts = [TextPart ''Hello'']\<rparr>"

definition toolPending :: tool_invocation where
  "toolPending = \<lparr>toolCallId = ''t1'', toolName = ''weather'', args = ''{}'',
     state = InputAvailable, result = None, step = 0\<rparr>"

definition toolDone :: tool_invocation where
  "toolDone = \<lparr>toolCallId = ''t1'', toolName = ''weather'', args = ''{}'',
     state = OutputAvailable, result = Some ''sunny'', step = 1\<rparr>"

definition assistantPending :: message where
  "assistantPending = \<lparr>msg_id = ''a1'', role = Assistant, parts = [ToolInvocationPart toolPending]\<rparr>"

definition assistantDone :: message where
  "assistantDone = \<lparr>msg_id = ''a1'', role = Assistant, parts = [ToolInvocationPart toolDone]\<rparr>"

definition freshDraft :: "message option \<Rightarrow> string \<Rightarrow> message" where
  "freshDraft lm i = \<lparr>msg_id = i, role = Assistant, parts = []\<rparr>"

text \<open>A transport whose stream ends at once.\<close>

definition quietEnv :: env where
  "quietEnv = \<lparr>maxSteps = 5, generateId = (\<lambda>n. ''a1''),
     transport = (\<lambda>n rt ms. \<lparr>drafts = [], outcome = Finished (freshDraft None ''a1'')\<rparr>),
     createStreamingUIMessageState = freshDraft\<rparr>"

text \<open>A transport whose stream delivers \<open>Hel\<close> and is then cancelled.\<close>

definition abortedEnv :: env where
  "abortedEnv = \<lparr>maxSteps = 5, generateId = (\<lambda>n. ''a1''),
     transport = (\<lambda>n rt ms. \<lparr>drafts = [draftHel], outcome = Threw (Thrown ''AbortError'' True)\<rparr>),
     createStreamingUIMessageState = freshDraft\<rparr>"

text \<open>
  A transport whose first stream delivers a completed tool call of step 1 and then breaks
  with a \<^verbatim>\<open>TypeError\<close>; every later stream ends at once.
\<close>

definition brokenEnv :: env where
  "brokenEnv = \<lparr>maxSteps = 5, generateId = (\<lambda>n. ''a1''),
     transport = (\<lambda>n rt ms.
        if n = 0 then \<lparr>drafts = [assistantDone], outcome = Threw (Thrown ''TypeError'' True)\<rparr>
        else \<lparr>drafts = [], outcome = Finished assistantDone\<rparr>),
     createStreamingUIMessageState = freshDraft\<rparr>"

text \<open>
  What it means that an operation on an id the store did not know has created the chat:
  the id is known afterwards, there is one chat more, and the chat stored under the id
  is what the operation makes of a new chat with no messages.
\<close>

definition createdThen :: "store \<Rightarrow> string \<Rightarrow> (chat \<Rightarrow> chat) \<Rightarrow> store \<Rightarrow> bool" where
  "createdThen s i f s' =
     (hasChat s' i \<and> chatCount s' = chatCount s + 1
      \<and> fmlookup (chats s') i = Some (f (newChatClient i [])))"

section \<open>Lemmas about the state manager\<close>

lemma slice_index_minus_one: "slice_index xs (- 1) = length xs - 1"
  by (simp add: slice_index_def)

lemma slice_index_last: "xs \<noteq> [] \<Longrightarrow> slice_index xs (int (length xs) - 1) = length xs - 1"
  by (cases xs) (simp_all add: slice_index_def)

lemma slice_index_zero: "slice_index xs 0 = 0"
  by (simp add: slice_index_def)

lemma slice_butlast: "slice xs 0 (- 1) = butlast xs"
  by (simp add: slice_def slice_index_minus_one slice_index_zero butlast_conv_take)

lemma slice_upto_last: "xs \<noteq> [] \<Longrightarrow> slice xs 0 (int (length xs) - 1) = butlast xs"
  by (simp add: slice_def slice_index_last slice_index_zero butlast_conv_take)

lemma slice_from_length: "slice_from xs (int (length xs)) = []"
  by (simp add: slice_from_def slice_index_def)

lemma messages_emit [simp]: "messages (emit t e c) = messages c"
  by (simp add: emit_def)

lemma messages_setStatus [simp]: "messages (setStatus s e c) = messages c"
  by (simp add: setStatus_def)

lemma messages_popMessage [simp]: "messages (popMessage c) = butlast (messages c)"
  by (simp add: popMessage_def slice_butlast)

lemma messages_pushMessage [simp]: "messages (pushMessage m c) = messages c @ [m]"
  by (simp add: pushMessage_def)

lemma messages_replace_last:
  "messages c \<noteq> [] \<Longrightarrow> n = length (messages c) \<Longrightarrow>
   messages (replaceMessage (int n - 1) m c) = butlast (messages c) @ [m]"
  by (simp add: replaceMessage_def slice_upto_last slice_from_length)

section \<open>Lemmas about publishing\<close>

lemma writeDraft_fields:
  "trace (writeDraft d c) = trace c @ publishEffects (chat_id c)"
  "chat_id (writeDraft d c) = chat_id c"
  "status (writeDraft d c) = Streaming"
  "error (writeDraft d c) = None"
  "activeResponse (writeDraft d c) = activeResponse c"
  "requests (writeDraft d c) = requests c"
  "generated (writeDraft d c) = generated c"
  by (simp_all add: writeDraft_def Let_def setStatus_def emit_def replaceMessage_def
      pushMessage_def publishEffects_def statusChanged_def messagesChanged_def)

lemma publish_all_fields:
  "trace (foldl (\<lambda>c d. writeDraft d c) c ds)
     = trace c @ concat (map (\<lambda>d. publishEffects (chat_id c)) ds)"
  "chat_id (foldl (\<lambda>c d. writeDraft d c) c ds) = chat_id c"
  "activeResponse (foldl (\<lambda>c d. writeDraft d c) c ds) = activeResponse c"
  "requests (foldl (\<lambda>c d. writeDraft d c) c ds) = requests c"
  "generated (foldl (\<lambda>c d. writeDraft d c) c ds) = generated c"
  by (induction ds arbitrary: c) (simp_all add: writeDraft_fields)

lemma publish_effects_harmless:
  "e \<in> set (concat (map (\<lambda>d. publishEffects i) ds)) \<Longrightarrow>
   \<not> isOnError e \<and> \<not> isSubmitMessages e \<and> (\<forall>ev. e = Emit ev \<longrightarrow> ev_error ev = None)"
  by (auto simp: publishEffects_def statusChanged_def messagesChanged_def split: if_splits)

section \<open>Lemmas about the request cycle\<close>

lemma setStatus_fields:
  "trace (setStatus st e c) = trace c @ [statusChanged (chat_id c) e]"
  "chat_id (setStatus st e c) = chat_id c"
  "status (setStatus st e c) = st"
  "error (setStatus st e c) = e"
  "activeResponse (setStatus st e c) = activeResponse c"
  "requests (setStatus st e c) = requests c"
  "generated (setStatus st e c) = generated c"
  by (simp_all add: setStatus_def emit_def statusChanged_def)

lemma requestCycle_abort:
  assumes "outcome (transport env (requests c) rt (messages c)) = Threw err"
    and "err_name err = ''AbortError''"
  shows "snd (requestCycle env rt opts c)"
    and "status (fst (requestCycle env rt opts c)) = Ready"
    and "error (fst (requestCycle env rt opts c)) = None"
    and "activeResponse (fst (requestCycle env rt opts c)) = None"
    and "requests (fst (requestCycle env rt opts c)) = requests c + 1"
    and "trace (fst (requestCycle env rt opts c)) =
           trace c @ [SubmitMessages rt (chat_id c) (messages c) (requests c)]
             @ concat (map (\<lambda>d. publishEffects (chat_id c))
                 (drafts (transport env (requests c) rt (messages c))))
             @ [statusChanged (chat_id c) None]"
  using assms
  by (simp_all add: requestCycle_def Let_def setActiveResponse_def logEffect_def
      setStatus_fields publish_all_fields)

lemma requestCycle_trace_prefix:
  "\<exists>rest. trace (fst (requestCycle env rt opts c)) =
     trace c @ [SubmitMessages rt (chat_id c) (messages c) (requests c)] @ rest"
  by (cases "outcome (transport env (requests c) rt (messages c))")
    (simp_all add: requestCycle_def Let_def setActiveResponse_def logEffect_def
      setStatus_fields publish_all_fields)

lemma triggerRequest_first_effects:
  "\<exists>rest. trace (triggerRequest env rt opts c) =
     trace c @ [statusChanged (chat_id c) None,
                SubmitMessages rt (chat_id c) (messages c) (requests c)] @ rest"
proof (induction env rt opts c rule: triggerRequest.induct)
  case (1 env rt opts c)
  let ?c1 = "setStatus Submitted None c"
  let ?r = "requestCycle env rt opts ?c1"
  let ?again = "\<not> snd ?r \<and>
     shouldResubmitMessages (maxStepOf ?c1) (length (messages ?c1)) (maxSteps env) (messages (fst ?r))"
  obtain rest where r: "trace (fst ?r) =
      trace ?c1 @ [SubmitMessages rt (chat_id ?c1) (messages ?c1) (requests ?c1)] @ rest"
    using requestCycle_trace_prefix by blast
  then have first: "trace (fst ?r) =
      trace c @ [statusChanged (chat_id c) None,
                 SubmitMessages rt (chat_id c) (messages c) (requests c)] @ rest"
    by (simp add: setStatus_fields)
  show ?case
  proof (cases ?again)
    case True
    then have unfold: "triggerRequest env rt opts c = triggerRequest env rt opts (fst ?r)"
      by (subst triggerRequest.simps) (simp add: Let_def)
    from True "1.IH" [OF refl refl refl refl] obtain rest' where
      "trace (triggerRequest env rt opts (fst ?r)) = trace (fst ?r) @ rest'"
      by fastforce
    with first unfold show ?thesis by simp
  next
    case False
    then have "triggerRequest env rt opts c = fst ?r"
      by (subst triggerRequest.simps) (auto simp: Let_def)
    with first show ?thesis by simp
  qed
qed

section \<open>Publish: replace or append\<close>

text \<open>
  C1. A publish replaces the last message with the draft when the list is not empty and
  the last message has the draft's id; otherwise it appends the draft. Every message
  at an earlier position stays where it is, unchanged.
\<close>

theorem write_replaces_or_appends:
  "messages (writeDraft draft c) =
     (if messages c \<noteq> [] \<and> msg_id (last (messages c)) = msg_id draft
      then butlast (messages c) @ [draft]
      else messages c @ [draft])
   \<and> (\<forall>i. i + 1 < length (messages (writeDraft draft c)) \<longrightarrow>
          i < length (messages c) \<and> messages (writeDraft draft c) ! i = messages c ! i)"
proof -
  let ?ms = "messages c"
  have eq: "messages (writeDraft draft c) =
     (if ?ms \<noteq> [] \<and> msg_id (last ?ms) = msg_id draft
      then butlast ?ms @ [draft] else ?ms @ [draft])"
    by (auto simp: writeDraft_def Let_def lastMessage_def messages_replace_last)
  have frame: "i < length ?ms \<and> messages (writeDraft draft c) ! i = ?ms ! i"
    if "i + 1 < length (messages (writeDraft draft c))" for i
  proof (cases "?ms \<noteq> [] \<and> msg_id (last ?ms) = msg_id draft")
    case True
    with eq have m: "messages (writeDraft draft c) = butlast ?ms @ [draft]" by simp
    with that have "i < length (butlast ?ms)" by simp
    then show ?thesis by (simp add: m nth_append nth_butlast)
  next
    case False
    with eq have m: "messages (writeDraft draft c) = ?ms @ [draft]" by auto
    with that have "i < length ?ms" by simp
    then show ?thesis by (simp add: m nth_append)
  qed
  from eq frame show ?thesis by blast
qed

theorem write_replaces_or_appends_witness:
  "messages (writeDraft draftHello (newChatClient ''c'' [userHi, draftHel])) = [userHi, draftHello]
   \<and> messages (writeDraft draftHello (newChatClient ''c'' [userHi])) = [userHi, draftHello]
   \<and> (0::nat) + 1 < length (messages (writeDraft draftHello (newChatClient ''c'' [userHi, draftHel])))
   \<and> messages (writeDraft draftHello (newChatClient ''c'' [userHi, draftHel])) ! 0 = userHi"
  using write_replaces_or_appends [of draftHello "newChatClient ''c'' [userHi, draftHel]"]
    write_replaces_or_appends [of draftHello "newChatClient ''c'' [userHi]"]
  by (simp add: newChatClient_def userHi_def draftHel_def draftHello_def)

section \<open>The resubmission policy\<close>

text \<open>
  C2. The policy answers yes only when the message list has a last message, that message is
  from the assistant, every tool invocation in it is in a terminal state, its step count
  is strictly above the step count recorded before the call, and its step count is below
  the maximum. So it answers no whenever the message count and the step count are what
  they were before the call, whatever the state of the tool invocations.
\<close>

theorem resubmission_policy_only_when:
  "(shouldResubmitMessages k n mx ms \<longrightarrow>
      ms \<noteq> [] \<and> role (last ms) = Assistant
      \<and> list_all isTerminal (getToolInvocations (Some (last ms)))
      \<and> k < extractMaxToolInvocationStep (getToolInvocations (Some (last ms)))
      \<and> int (extractMaxToolInvocationStep (getToolInvocations (Some (last ms)))) < mx)
   \<and> (n = length ms \<and> extractMaxToolInvocationStep (getToolInvocations (lastMessage ms)) = k
        \<longrightarrow> \<not> shouldResubmitMessages k n mx ms)"
  by (auto simp: shouldResubmitMessages_def lastMessage_def split: if_splits)

theorem resubmission_policy_only_when_witness:
  "shouldResubmitMessages 0 1 5 [userHi, assistantDone]
   \<and> role (last [userHi, assistantDone]) = Assistant
   \<and> list_all isTerminal (getToolInvocations (Some (last [userHi, assistantDone])))
   \<and> 0 < extractMaxToolInvocationStep (getToolInvocations (Some (last [userHi, assistantDone])))
   \<and> int (extractMaxToolInvocationStep (getToolInvocations (Some (last [userHi, assistantDone])))) < 5
   \<and> 2 = length [userHi, assistantDone]
   \<and> extractMaxToolInvocationStep (getToolInvocations (lastMessage [userHi, assistantDone])) = 1
   \<and> \<not> shouldResubmitMessages 1 2 5 [userHi, assistantDone]"
  using resubmission_policy_only_when [of 0 1 5 "[userHi, assistantDone]"]
    resubmission_policy_only_when [of 1 2 5 "[userHi, assistantDone]"]
  by (simp add: shouldResubmitMessages_def lastMessage_def getToolInvocations_def
      extractMaxToolInvocationStep_def isTerminal_def userHi_def assistantDone_def toolDone_def)

section \<open>Stopping a stream\<close>

text \<open>
  C6. When the status is neither \<open>Submitted\<close> nor \<open>Streaming\<close>, \<open>stopStream\<close> returns the
  chat as it is (status, messages, error, active response and trace), and so does a
  second call. In every state a second call adds nothing to the first, and status,
  messages and error are never touched. When the status is \<open>Submitted\<close> or \<open>Streaming\<close>
  and the active response holds a cancellation handle, the handle is aborted and
  cleared; afterwards the active response holds no handle.
\<close>

theorem stopStream_effect:
  "(status c \<noteq> Submitted \<and> status c \<noteq> Streaming \<longrightarrow>
      stopStream c = c \<and> stopStream (stopStream c) = c)
   \<and> stopStream (stopStream c) = stopStream c
   \<and> status (stopStream c) = status c
   \<and> messages (stopStream c) = messages c
   \<and> error (stopStream c) = error c
   \<and> ((status c = Submitted \<or> status c = Streaming)
        \<and> activeResponse c = Some ar \<and> abortController ar = Some h \<longrightarrow>
        stopStream c =
          c\<lparr>trace := trace c @ [Abort h], activeResponse := Some (ar\<lparr>abortController := None\<rparr>)\<rparr>)
   \<and> (\<forall>ar'. (status c = Submitted \<or> status c = Streaming)
        \<and> activeResponse (stopStream c) = Some ar' \<longrightarrow> abortController ar' = None)"
  by (auto simp: stopStream_def logEffect_def split: option.splits)

theorem stopStream_effect_witness:
  "status (newChatClient ''c'' [userHi]) \<noteq> Submitted
   \<and> status (newChatClient ''c'' [userHi]) \<noteq> Streaming
   \<and> stopStream (newChatClient ''c'' [userHi]) = newChatClient ''c'' [userHi]
   \<and> stopStream (stopStream (newChatClient ''c'' [userHi])) = newChatClient ''c'' [userHi]
   \<and> status ((newChatClient ''c'' [userHi, draftHel])
        \<lparr>status := Streaming,
          activeResponse := Some \<lparr>ar_state = draftHel, abortController = Some 0\<rparr>\<rparr>) = Streaming
   \<and> stopStream ((newChatClient ''c'' [userHi, draftHel])
        \<lparr>status := Streaming,
          activeResponse := Some \<lparr>ar_state = draftHel, abortController = Some 0\<rparr>\<rparr>)
      = (newChatClient ''c'' [userHi, draftHel])
        \<lparr>status := Streaming,
          activeResponse := Some \<lparr>ar_state = draftHel, abortController = None\<rparr>,
          trace := [Abort 0]\<rparr>"
  using stopStream_effect [of "newChatClient ''c'' [userHi]"]
    stopStream_effect [of "(newChatClient ''c'' [userHi, draftHel])
        \<lparr>status := Streaming,
          activeResponse := Some \<lparr>ar_state = draftHel, abortController = Some 0\<rparr>\<rparr>"
      "\<lparr>ar_state = draftHel, abortController = Some 0\<rparr>" 0]
  by (simp add: newChatClient_def)

section \<open>Removing the assistant's response\<close>

text \<open>
  C8. \<open>removeAssistantResponse\<close> throws exactly when the chat is empty or its last message
  is not from the assistant, and then leaves the chat as it was. Otherwise it removes
  the last message and nothing else, and tells the subscribers. In no case does it call
  the transport. (The spec's \<open>InvalidStateError\<close> is a plain \<^verbatim>\<open>Error\<close> in the code.)
\<close>

theorem removeAssistantResponse_spec:
  "(fst (removeAssistantResponse c) \<noteq> None
      \<longleftrightarrow> messages c = [] \<or> role (last (messages c)) \<noteq> Assistant)
   \<and> (fst (removeAssistantResponse c) \<noteq> None \<longrightarrow> snd (removeAssistantResponse c) = c)
   \<and> (fst (removeAssistantResponse c) = None \<longrightarrow>
        snd (removeAssistantResponse c) =
          c\<lparr>messages := butlast (messages c), trace := trace c @ [messagesChanged (chat_id c)]\<rparr>)
   \<and> filter isSubmitMessages (trace (snd (removeAssistantResponse c)))
       = filter isSubmitMessages (trace c)
   \<and> requests (snd (removeAssistantResponse c)) = requests c"
  by (auto simp: removeAssistantResponse_def lastMessage_def popMessage_def emit_def
      slice_butlast messagesChanged_def)

theorem removeAssistantResponse_spec_witness:
  "fst (removeAssistantResponse (newChatClient ''c'' [])) \<noteq> None
   \<and> snd (removeAssistantResponse (newChatClient ''c'' [])) = newChatClient ''c'' []
   \<and> fst (removeAssistantResponse (newChatClient ''c'' [userHi])) \<noteq> None
   \<and> snd (removeAssistantResponse (newChatClient ''c'' [userHi])) = newChatClient ''c'' [userHi]
   \<and> fst (removeAssistantResponse (newChatClient ''c'' [userHi, draftHel])) = None
   \<and> messages (snd (removeAssistantResponse (newChatClient ''c'' [userHi, draftHel]))) = [userHi]"
  using removeAssistantResponse_spec [of "newChatClient ''c'' []"]
    removeAssistantResponse_spec [of "newChatClient ''c'' [userHi]"]
    removeAssistantResponse_spec [of "newChatClient ''c'' [userHi, draftHel]"]
  by (simp add: newChatClient_def userHi_def draftHel_def)

section \<open>The store: setting the status a chat already has\<close>

text \<open>
  C10. When the chat \<open>i\<close> exists and already has the status that \<open>setStatus\<close> of the store is
  called with, the store stays as it is: status, error and trace of the chat are
  unchanged (no event is emitted), whatever the error argument.
\<close>

theorem setStatus_store_same_status:
  "fmlookup (chats s) i = Some c \<Longrightarrow> status c = st \<Longrightarrow>
   setStatus_store i st e s = s
   \<and> fmlookup (chats (setStatus_store i st e s)) i = Some c"
  by (simp add: setStatus_store_def getClient_def)

theorem setStatus_store_same_status_witness:
  "fmlookup (chats (addChat ''c'' [userHi] \<lparr>chats = fmempty\<rparr>)) ''c''
     = Some (newChatClient ''c'' [userHi])
   \<and> status (newChatClient ''c'' [userHi]) = Ready
   \<and> setStatus_store ''c'' Ready (Some (Thrown ''Boom'' True))
        (addChat ''c'' [userHi] \<lparr>chats = fmempty\<rparr>)
      = addChat ''c'' [userHi] \<lparr>chats = fmempty\<rparr>"
  using setStatus_store_same_status [of "addChat ''c'' [userHi] \<lparr>chats = fmempty\<rparr>" "''c''"
      "newChatClient ''c'' [userHi]" Ready "Some (Thrown ''Boom'' True)"]
  by (simp add: addChat_def newChatClient_def)

section \<open>Adding a tool result\<close>

lemma patchPart_cases:
  "patchPart tcid r p =
     (case p of
        ToolInvocationPart ti \<Rightarrow>
          if toolCallId ti = tcid
          then ToolInvocationPart (ti\<lparr>state := OutputAvailable, result := Some r\<rparr>)
          else ToolInvocationPart ti
      | q \<Rightarrow> q)"
  by (cases p) simp_all

lemma updateToolCallResult_pointwise:
  "length (updateToolCallResult ms tcid r) = length ms"
  "i < length ms \<Longrightarrow> msg_id (updateToolCallResult ms tcid r ! i) = msg_id (ms ! i)"
  "i < length ms \<Longrightarrow> role (updateToolCallResult ms tcid r ! i) = role (ms ! i)"
  "i < length ms \<Longrightarrow>
     parts (updateToolCallResult ms tcid r ! i) = map (patchPart tcid r) (parts (ms ! i))"
  by (simp_all add: updateToolCallResult_def)

lemma triggerRequestCall_fields:
  "triggerRequestCall env rt c =
     c\<lparr>status := Submitted, error := None,
       activeResponse := Some
         \<lparr>ar_state = createStreamingUIMessageState env (lastMessage (messages c))
                       (generateId env (generated c)),
          abortController = Some (requests c)\<rparr>,
       trace := trace c @ [statusChanged (chat_id c) None,
                           SubmitMessages rt (chat_id c) (messages c) (requests c)],
       requests := requests c + 1, generated := generated c + 1\<rparr>"
  by (simp add: triggerRequestCall_def Let_def setStatus_def emit_def setActiveResponse_def
      logEffect_def statusChanged_def)

text \<open>
  The request cycle starts as \<open>triggerRequestCall\<close> says: whatever the transport answers,
  the trace of \<open>triggerRequest\<close> begins with the trace of the call.
\<close>

lemma triggerRequest_begins_with_call:
  "\<exists>rest. trace (triggerRequest env rt opts c) = trace (triggerRequestCall env rt c) @ rest"
  using triggerRequest_first_effects [of env rt opts c]
  by (simp add: triggerRequestCall_fields)

text \<open>
  C3. The job of \<open>addToolResult\<close> stores the patched message list and tells the
  subscribers. The patched list has the messages of the old one, with their ids and
  roles, and part for part the same parts, except that a tool invocation with the given
  tool call id now has the result (and the state of an invocation with a result). If
  the status is \<open>Submitted\<close> or \<open>Streaming\<close>, that is all: no request is made. Otherwise,
  if the last message is an assistant message whose tool invocations all have a result,
  the job triggers a request of type \<open>Generate\<close>: the status becomes \<open>Submitted\<close>, an
  active response with a fresh cancellation handle is stored, and the transport is
  called with the patched list. Otherwise that is all again.
\<close>

theorem addToolResult_job:
  "(let ms = updateToolCallResult (messages c) tcid r;
        c1 = c\<lparr>messages := ms, trace := trace c @ [messagesChanged (chat_id c)]\<rparr>
    in length ms = length (messages c)
       \<and> (\<forall>i < length ms.
             msg_id (ms ! i) = msg_id (messages c ! i)
             \<and> role (ms ! i) = role (messages c ! i)
             \<and> length (parts (ms ! i)) = length (parts (messages c ! i))
             \<and> (\<forall>j < length (parts (ms ! i)).
                   parts (ms ! i) ! j =
                     (case parts (messages c ! i) ! j of
                        ToolInvocationPart ti \<Rightarrow>
                          if toolCallId ti = tcid
                          then ToolInvocationPart (ti\<lparr>state := OutputAvailable, result := Some r\<rparr>)
                          else ToolInvocationPart ti
                      | p \<Rightarrow> p)))
       \<and> (status c = Submitted \<or> status c = Streaming \<longrightarrow> addToolResult env tcid r c = c1)
       \<and> (status c \<noteq> Submitted \<and> status c \<noteq> Streaming
           \<and> isAssistantMessageWithCompletedToolCalls (lastMessage ms) \<longrightarrow>
           addToolResult env tcid r c =
             c1\<lparr>status := Submitted, error := None,
                activeResponse := Some
                  \<lparr>ar_state = createStreamingUIMessageState env (lastMessage ms)
                                (generateId env (generated c)),
                   abortController = Some (requests c)\<rparr>,
                trace := trace c1 @ [statusChanged (chat_id c) None,
                                     SubmitMessages Generate (chat_id c) ms (requests c)],
                requests := requests c + 1, generated := generated c + 1\<rparr>)
       \<and> (status c \<noteq> Submitted \<and> status c \<noteq> Streaming
           \<and> \<not> isAssistantMessageWithCompletedToolCalls (lastMessage ms) \<longrightarrow>
           addToolResult env tcid r c = c1))"
proof -
  define ms where "ms = updateToolCallResult (messages c) tcid r"
  define c1 where "c1 = c\<lparr>messages := ms, trace := trace c @ [messagesChanged (chat_id c)]\<rparr>"
  have republished: "setMessages (updateToolCallResult (messages c) tcid r) c = c1"
    by (simp add: c1_def ms_def setMessages_def emit_def messagesChanged_def)
  have fields: "status c1 = status c" "chat_id c1 = chat_id c" "requests c1 = requests c"
    "generated c1 = generated c" "messages c1 = ms"
    by (simp_all add: c1_def)
  have len: "length ms = length (messages c)"
    by (simp add: ms_def updateToolCallResult_pointwise)
  have pointwise: "msg_id (ms ! i) = msg_id (messages c ! i)
      \<and> role (ms ! i) = role (messages c ! i)
      \<and> length (parts (ms ! i)) = length (parts (messages c ! i))
      \<and> (\<forall>j < length (parts (ms ! i)).
            parts (ms ! i) ! j =
              (case parts (messages c ! i) ! j of
                 ToolInvocationPart ti \<Rightarrow>
                   if toolCallId ti = tcid
                   then ToolInvocationPart (ti\<lparr>state := OutputAvailable, result := Some r\<rparr>)
                   else ToolInvocationPart ti
               | p \<Rightarrow> p))"
    if "i < length ms" for i
  proof -
    from that len have i: "i < length (messages c)" by simp
    have p: "parts (ms ! i) = map (patchPart tcid r) (parts (messages c ! i))"
      unfolding ms_def by (rule updateToolCallResult_pointwise(4) [OF i])
    have "msg_id (ms ! i) = msg_id (messages c ! i)" "role (ms ! i) = role (messages c ! i)"
      unfolding ms_def by (rule updateToolCallResult_pointwise(2,3) [OF i])+
    moreover have "length (parts (ms ! i)) = length (parts (messages c ! i))"
      by (simp add: p)
    moreover have "parts (ms ! i) ! j =
        (case parts (messages c ! i) ! j of
           ToolInvocationPart ti \<Rightarrow>
             if toolCallId ti = tcid
             then ToolInvocationPart (ti\<lparr>state := OutputAvailable, result := Some r\<rparr>)
             else ToolInvocationPart ti
         | p \<Rightarrow> p)" if "j < length (parts (ms ! i))" for j
    proof -
      from that have "j < length (parts (messages c ! i))" by (simp add: p)
      then have "parts (ms ! i) ! j = patchPart tcid r (parts (messages c ! i) ! j)"
        by (simp add: p)
      then show ?thesis by (simp only: patchPart_cases)
    qed
    ultimately show ?thesis by blast
  qed
  have busy: "addToolResult env tcid r c = c1" if "status c = Submitted \<or> status c = Streaming"
    using that by (auto simp: addToolResult_def republished Let_def fields)
  have idle: "addToolResult env tcid r c = c1"
    if "status c \<noteq> Submitted \<and> status c \<noteq> Streaming
      \<and> \<not> isAssistantMessageWithCompletedToolCalls (lastMessage ms)"
    using that by (simp add: addToolResult_def republished Let_def fields)
  have request: "addToolResult env tcid r c =
      c1\<lparr>status := Submitted, error := None,
         activeResponse := Some
           \<lparr>ar_state = createStreamingUIMessageState env (lastMessage ms)
                         (generateId env (generated c)),
            abortController = Some (requests c)\<rparr>,
         trace := trace c1 @ [statusChanged (chat_id c) None,
                              SubmitMessages Generate (chat_id c) ms (requests c)],
         requests := requests c + 1, generated := generated c + 1\<rparr>"
    if "status c \<noteq> Submitted \<and> status c \<noteq> Streaming
      \<and> isAssistantMessageWithCompletedToolCalls (lastMessage ms)"
  proof -
    from that have "addToolResult env tcid r c = triggerRequestCall env Generate c1"
      by (simp add: addToolResult_def republished Let_def fields)
    then show ?thesis by (simp add: triggerRequestCall_fields fields)
  qed
  show ?thesis
    unfolding Let_def ms_def [symmetric] c1_def [symmetric]
  proof (intro conjI allI impI)
    show "length ms = length (messages c)" by (rule len)
  next
    fix i assume "i < length ms"
    from pointwise [OF this] show "msg_id (ms ! i) = msg_id (messages c ! i)"
      and "role (ms ! i) = role (messages c ! i)"
      and "length (parts (ms ! i)) = length (parts (messages c ! i))"
      by simp_all
    fix j assume "j < length (parts (ms ! i))"
    with pointwise [OF \<open>i < length ms\<close>]
    show "parts (ms ! i) ! j =
        (case parts (messages c ! i) ! j of
           ToolInvocationPart ti \<Rightarrow>
             if toolCallId ti = tcid
             then ToolInvocationPart (ti\<lparr>state := OutputAvailable, result := Some r\<rparr>)
             else ToolInvocationPart ti
         | p \<Rightarrow> p)"
      by blast
  next
    assume "status c = Submitted \<or> status c = Streaming"
    then show "addToolResult env tcid r c = c1" by (rule busy)
  next
    assume "status c \<noteq> Submitted \<and> status c \<noteq> Streaming
      \<and> isAssistantMessageWithCompletedToolCalls (lastMessage ms)"
    then show "addToolResult env tcid r c =
      c1\<lparr>status := Submitted, error := None,
         activeResponse := Some
           \<lparr>ar_state = createStreamingUIMessageState env (lastMessage ms)
                         (generateId env (generated c)),
            abortController = Some (requests c)\<rparr>,
         trace := trace c1 @ [statusChanged (chat_id c) None,
                              SubmitMessages Generate (chat_id c) ms (requests c)],
         requests := requests c + 1, generated := generated c + 1\<rparr>"
      by (rule request)
  next
    assume "status c \<noteq> Submitted \<and> status c \<noteq> Streaming
      \<and> \<not> isAssistantMessageWithCompletedToolCalls (lastMessage ms)"
    then show "addToolResult env tcid r c = c1" by (rule idle)
  qed
qed

theorem addToolResult_job_witness:
  "status (newChatClient ''c'' [userHi, assistantPending]) = Ready
   \<and> updateToolCallResult [userHi, assistantPending] ''t1'' ''sunny''
       = [userHi, assistantDone\<lparr>parts := [ToolInvocationPart (toolDone\<lparr>step := 0\<rparr>)]\<rparr>]
   \<and> isAssistantMessageWithCompletedToolCalls
        (lastMessage (updateToolCallResult [userHi, assistantPending] ''t1'' ''sunny''))
   \<and> addToolResult brokenEnv ''t1'' ''sunny'' (newChatClient ''c'' [userHi, assistantPending])
      = (newChatClient ''c'' [userHi, assistantPending])
        \<lparr>messages := updateToolCallResult [userHi, assistantPending] ''t1'' ''sunny'',
          status := Submitted,
          activeResponse := Some \<lparr>ar_state = freshDraft None ''a1'', abortController = Some 0\<rparr>,
          trace := [messagesChanged ''c'', statusChanged ''c'' None,
                    SubmitMessages Generate ''c''
                      (updateToolCallResult [userHi, assistantPending] ''t1'' ''sunny'') 0],
          requests := 1, generated := 1\<rparr>
   \<and> addToolResult brokenEnv ''t1'' ''sunny''
        ((newChatClient ''c'' [userHi, assistantPending])\<lparr>status := Streaming\<rparr>)
      = (newChatClient ''c'' [userHi, assistantPending])
        \<lparr>status := Streaming,
          messages := updateToolCallResult [userHi, assistantPending] ''t1'' ''sunny'',
          trace := [messagesChanged ''c'']\<rparr>
   \<and> addToolResult brokenEnv ''t2'' ''sunny'' (newChatClient ''c'' [userHi, assistantPending])
      = (newChatClient ''c'' [userHi, assistantPending])\<lparr>trace := [messagesChanged ''c'']\<rparr>"
  using addToolResult_job [of "newChatClient ''c'' [userHi, assistantPending]" "''t1''" "''sunny''"
      brokenEnv]
    addToolResult_job [of "(newChatClient ''c'' [userHi, assistantPending])\<lparr>status := Streaming\<rparr>"
      "''t1''" "''sunny''" brokenEnv]
    addToolResult_job [of "newChatClient ''c'' [userHi, assistantPending]" "''t2''" "''sunny''"
      brokenEnv]
  by (simp add: Let_def newChatClient_def userHi_def assistantPending_def assistantDone_def
      toolPending_def toolDone_def updateToolCallResult_def lastMessage_def
      isAssistantMessageWithCompletedToolCalls_def getToolInvocations_def
      brokenEnv_def freshDraft_def)

section \<open>A cancelled request cycle\<close>

text \<open>
  C4. When the answer to the request ends with a thrown value named \<open>AbortError\<close>,
  \<open>triggerRequest\<close> ends with status \<open>Ready\<close>, no error and no active response, after this one
  request. All it did was: announce the status \<open>Submitted\<close>, call the transport, publish
  the drafts that arrived, and announce the status \<open>Ready\<close>. The \<open>onError\<close> callback is not
  called and no announced event carries an error.
\<close>

theorem cancelled_cycle:
  assumes "outcome (transport env (requests c) rt (messages c)) = Threw err"
    and "err_name err = ''AbortError''"
  shows "status (triggerRequest env rt opts c) = Ready
    \<and> error (triggerRequest env rt opts c) = None
    \<and> activeResponse (triggerRequest env rt opts c) = None
    \<and> requests (triggerRequest env rt opts c) = requests c + 1
    \<and> trace (triggerRequest env rt opts c) =
        trace c @ [statusChanged (chat_id c) None,
                   SubmitMessages rt (chat_id c) (messages c) (requests c)]
          @ concat (map (\<lambda>d. publishEffects (chat_id c))
              (drafts (transport env (requests c) rt (messages c))))
          @ [statusChanged (chat_id c) None]
    \<and> (\<forall>e \<in> set (drop (length (trace c)) (trace (triggerRequest env rt opts c))).
          \<not> isOnError e \<and> (\<forall>ev. e = Emit ev \<longrightarrow> ev_error ev = None))"
proof -
  let ?c1 = "setStatus Submitted None c"
  have same: "requests ?c1 = requests c" "messages ?c1 = messages c" "chat_id ?c1 = chat_id c"
    "trace ?c1 = trace c @ [statusChanged (chat_id c) None]"
    by (simp_all add: setStatus_fields)
  from assms have thrown: "outcome (transport env (requests ?c1) rt (messages ?c1)) = Threw err"
    by (simp add: same)
  note cycle = requestCycle_abort [OF thrown assms(2), of opts]
  have unfold: "triggerRequest env rt opts c = fst (requestCycle env rt opts ?c1)"
    by (subst triggerRequest.simps) (simp add: Let_def cycle(1))
  have tr: "trace (triggerRequest env rt opts c) =
        trace c @ [statusChanged (chat_id c) None,
                   SubmitMessages rt (chat_id c) (messages c) (requests c)]
          @ concat (map (\<lambda>d. publishEffects (chat_id c))
              (drafts (transport env (requests c) rt (messages c))))
          @ [statusChanged (chat_id c) None]"
    by (simp add: unfold cycle(6) same)
  have quiet: "\<not> isOnError e \<and> (\<forall>ev. e = Emit ev \<longrightarrow> ev_error ev = None)"
    if "e \<in> set (drop (length (trace c)) (trace (triggerRequest env rt opts c)))" for e
  proof -
    from that have "e = statusChanged (chat_id c) None
      \<or> e = SubmitMessages rt (chat_id c) (messages c) (requests c)
      \<or> e \<in> set (concat (map (\<lambda>d. publishEffects (chat_id c))
              (drafts (transport env (requests c) rt (messages c)))))"
      unfolding tr by auto
    then show ?thesis
      using publish_effects_harmless [of e "chat_id c"]
      by (auto simp: statusChanged_def)
  qed
  from cycle(2-5) tr quiet show ?thesis
    by (simp add: unfold same)
qed

theorem cancelled_cycle_witness:
  "outcome (transport abortedEnv 0 Generate [userHi]) = Threw (Thrown ''AbortError'' True)
   \<and> status (triggerRequest abortedEnv Generate \<lparr>onError = True, onFinish = True\<rparr>
        (newChatClient ''c'' [userHi])) = Ready
   \<and> error (triggerRequest abortedEnv Generate \<lparr>onError = True, onFinish = True\<rparr>
        (newChatClient ''c'' [userHi])) = None
   \<and> activeResponse (triggerRequest abortedEnv Generate \<lparr>onError = True, onFinish = True\<rparr>
        (newChatClient ''c'' [userHi])) = None
   \<and> trace (triggerRequest abortedEnv Generate \<lparr>onError = True, onFinish = True\<rparr>
        (newChatClient ''c'' [userHi]))
      = [statusChanged ''c'' None, SubmitMessages Generate ''c'' [userHi] 0,
         statusChanged ''c'' None, messagesChanged ''c'', statusChanged ''c'' None]"
  using cancelled_cycle [of abortedEnv "newChatClient ''c'' [userHi]" Generate
      "Thrown ''AbortError'' True" "\<lparr>onError = True, onFinish = True\<rparr>"]
  by (simp add: abortedEnv_def newChatClient_def publishEffects_def)

section \<open>A failed request cycle\<close>

text \<open>
  C5. The claim is that no request follows a request cycle that failed. The code reaches
  the resubmission check after a failure as it does after a success; only the abort
  branch returns before it. Here the stream publishes a completed tool call of step 1
  and then breaks with a \<open>TypeError\<close>: the cycle ends with status \<open>Error\<close>, and
  \<open>triggerRequest\<close> goes on to call the transport a second time and ends with status
  \<open>Ready\<close> and no error.
\<close>

theorem request_resubmitted_after_failure:
  "outcome (transport brokenEnv 0 Generate [userHi]) = Threw (Thrown ''TypeError'' True)
   \<and> status (fst (requestCycle brokenEnv Generate \<lparr>onError = True, onFinish = True\<rparr>
        (setStatus Submitted None (newChatClient ''c'' [userHi])))) = Error
   \<and> trace (triggerRequest brokenEnv Generate \<lparr>onError = True, onFinish = True\<rparr>
        (newChatClient ''c'' [userHi]))
      = [statusChanged ''c'' None,
         SubmitMessages Generate ''c'' [userHi] 0,
         statusChanged ''c'' None,
         messagesChanged ''c'',
         OnError (Thrown ''TypeError'' True),
         statusChanged ''c'' (Some (Thrown ''TypeError'' True)),
         statusChanged ''c'' None,
         SubmitMessages Generate ''c'' [userHi, assistantDone] 1,
         OnFinish assistantDone,
         statusChanged ''c'' None]
   \<and> status (triggerRequest brokenEnv Generate \<lparr>onError = True, onFinish = True\<rparr>
        (newChatClient ''c'' [userHi])) = Ready
   \<and> error (triggerRequest brokenEnv Generate \<lparr>onError = True, onFinish = True\<rparr>
        (newChatClient ''c'' [userHi])) = None"
  by code_simp

section \<open>Resubmitting the last user message\<close>

lemma popMessage_fields:
  "trace (popMessage c) = trace c @ [messagesChanged (chat_id c)]"
  "chat_id (popMessage c) = chat_id c"
  "requests (popMessage c) = requests c"
  by (simp_all add: popMessage_def emit_def messagesChanged_def)

text \<open>
  C7. \<open>resubmitLastUserMessage\<close> returns an empty chat as it is: no message changes and
  nothing is sent. When the last message is from the assistant, it removes that message
  and runs the request cycle on the rest: the transport is called with the list without
  its last message. When the last message is not from the assistant, it runs the request
  cycle on the chat as it is: the transport is called with the whole list.
\<close>

theorem resubmitLastUserMessage_spec:
  "(messages c = [] \<longrightarrow> resubmitLastUserMessage env opts c = c)
   \<and> (messages c \<noteq> [] \<and> role (last (messages c)) = Assistant \<longrightarrow>
        resubmitLastUserMessage env opts c = triggerRequest env Generate opts (popMessage c)
        \<and> messages (popMessage c) = butlast (messages c)
        \<and> (\<exists>rest. trace (resubmitLastUserMessage env opts c) =
              trace c @ [messagesChanged (chat_id c), statusChanged (chat_id c) None,
                         SubmitMessages Generate (chat_id c) (butlast (messages c)) (requests c)]
                @ rest))
   \<and> (messages c \<noteq> [] \<and> role (last (messages c)) \<noteq> Assistant \<longrightarrow>
        resubmitLastUserMessage env opts c = triggerRequest env Generate opts c
        \<and> (\<exists>rest. trace (resubmitLastUserMessage env opts c) =
              trace c @ [statusChanged (chat_id c) None,
                         SubmitMessages Generate (chat_id c) (messages c) (requests c)] @ rest))"
proof (intro conjI impI)
  assume "messages c = []"
  then show "resubmitLastUserMessage env opts c = c"
    by (simp add: resubmitLastUserMessage_def lastMessage_def)
next
  assume a: "messages c \<noteq> [] \<and> role (last (messages c)) = Assistant"
  then show eq: "resubmitLastUserMessage env opts c = triggerRequest env Generate opts (popMessage c)"
    by (simp add: resubmitLastUserMessage_def lastMessage_def)
  show "messages (popMessage c) = butlast (messages c)" by simp
  from triggerRequest_first_effects [of env Generate opts "popMessage c"]
  show "\<exists>rest. trace (resubmitLastUserMessage env opts c) =
              trace c @ [messagesChanged (chat_id c), statusChanged (chat_id c) None,
                         SubmitMessages Generate (chat_id c) (butlast (messages c)) (requests c)]
                @ rest"
    unfolding eq by (simp add: popMessage_fields)
next
  assume a: "messages c \<noteq> [] \<and> role (last (messages c)) \<noteq> Assistant"
  then show eq: "resubmitLastUserMessage env opts c = triggerRequest env Generate opts c"
    by (simp add: resubmitLastUserMessage_def lastMessage_def)
  from triggerRequest_first_effects [of env Generate opts c]
  show "\<exists>rest. trace (resubmitLastUserMessage env opts c) =
              trace c @ [statusChanged (chat_id c) None,
                         SubmitMessages Generate (chat_id c) (messages c) (requests c)] @ rest"
    unfolding eq by simp
qed

theorem resubmitLastUserMessage_spec_witness:
  "messages (newChatClient ''c'' []) = []
   \<and> resubmitLastUserMessage quietEnv noOptions (newChatClient ''c'' []) = newChatClient ''c'' []
   \<and> role (last (messages (newChatClient ''c'' [userHi, draftHel]))) = Assistant
   \<and> messages (popMessage (newChatClient ''c'' [userHi, draftHel])) = [userHi]
   \<and> resubmitLastUserMessage quietEnv noOptions (newChatClient ''c'' [userHi, draftHel])
      = triggerRequest quietEnv Generate noOptions (popMessage (newChatClient ''c'' [userHi, draftHel]))
   \<and> role (last (messages (newChatClient ''c'' [userHi]))) \<noteq> Assistant
   \<and> resubmitLastUserMessage quietEnv noOptions (newChatClient ''c'' [userHi])
      = triggerRequest quietEnv Generate noOptions (newChatClient ''c'' [userHi])"
  using resubmitLastUserMessage_spec [of "newChatClient ''c'' []" quietEnv noOptions]
    resubmitLastUserMessage_spec [of "newChatClient ''c'' [userHi, draftHel]" quietEnv noOptions]
    resubmitLastUserMessage_spec [of "newChatClient ''c'' [userHi]" quietEnv noOptions]
  by (simp add: newChatClient_def userHi_def draftHel_def)

section \<open>The store: chats are created on first use\<close>

lemma getClient_new:
  "\<not> hasChat s i \<Longrightarrow> getClient s i = (newChatClient i [], addChat i [] s)"
  by (simp add: hasChat_def getClient_def addChat_def)

lemma addChat_new: "\<not> hasChat s i \<Longrightarrow> createdThen s i (\<lambda>c. c) (addChat i [] s)"
  by (simp add: createdThen_def hasChat_def addChat_def chatCount_def fcard_finsert_disjoint
      fmdom_notI)

lemma stored_back:
  "\<not> hasChat s i \<Longrightarrow>
   createdThen s i f ((addChat i [] s)\<lparr>chats := fmupd i (f (newChatClient i [])) (chats (addChat i [] s))\<rparr>)"
  using addChat_new [of s i]
  by (simp add: createdThen_def hasChat_def addChat_def chatCount_def)

lemma onClient_new: "\<not> hasChat s i \<Longrightarrow> createdThen s i f (onClient f i s)"
  by (simp add: onClient_def getClient_new stored_back)

text \<open>
  C9. When the store has no chat \<open>i\<close>, \<open>getClient\<close> makes one with no messages and status
  \<open>Ready\<close>, and so does every accessor and operation that takes an id: afterwards
  \<open>hasChat\<close> holds of \<open>i\<close>, the number of chats has grown by one, and the chat stored
  under \<open>i\<close> is what the operation makes of the new chat.
\<close>

theorem getClient_creates_chat:
  assumes "\<not> hasChat s i"
  shows "fst (getClient s i) = newChatClient i []
    \<and> messages (newChatClient i []) = [] \<and> status (newChatClient i []) = Ready
    \<and> createdThen s i (\<lambda>c. c) (snd (getClient s i))
    \<and> fst (getStatus s i) = Ready \<and> createdThen s i (\<lambda>c. c) (snd (getStatus s i))
    \<and> fst (getMessages s i) = [] \<and> createdThen s i (\<lambda>c. c) (snd (getMessages s i))
    \<and> fst (getError s i) = None \<and> createdThen s i (\<lambda>c. c) (snd (getError s i))
    \<and> fst (getLastMessage s i) = None \<and> createdThen s i (\<lambda>c. c) (snd (getLastMessage s i))
    \<and> createdThen s i (\<lambda>c. if st = Ready then c else setStatus st e c) (setStatus_store i st e s)
    \<and> createdThen s i (setMessages ms) (setMessages_store i ms s)
    \<and> createdThen s i (submitMessage env opts m) (submitMessage_store env i opts m s)
    \<and> createdThen s i (resubmitLastUserMessage env opts) (resubmitLastUserMessage_store env i opts s)
    \<and> createdThen s i (resumeStream env opts) (resumeStream_store env i opts s)
    \<and> createdThen s i (addToolResult env tcid r) (addToolResult_store env i tcid r s)
    \<and> createdThen s i stopStream (stopStream_store i s)
    \<and> createdThen s i (\<lambda>c. c) (snd (removeAssistantResponse_store i s))"
proof -
  note new = getClient_new [OF assms] addChat_new [OF assms]
  have fresh: "messages (newChatClient i []) = []" "status (newChatClient i []) = Ready"
    "error (newChatClient i []) = None"
    by (simp_all add: newChatClient_def)
  have readers: "fst (getClient s i) = newChatClient i []"
    "createdThen s i (\<lambda>c. c) (snd (getClient s i))"
    "fst (getStatus s i) = Ready" "createdThen s i (\<lambda>c. c) (snd (getStatus s i))"
    "fst (getMessages s i) = []" "createdThen s i (\<lambda>c. c) (snd (getMessages s i))"
    "fst (getError s i) = None" "createdThen s i (\<lambda>c. c) (snd (getError s i))"
    "fst (getLastMessage s i) = None" "createdThen s i (\<lambda>c. c) (snd (getLastMessage s i))"
    by (simp_all add: new fresh getStatus_def getMessages_def getError_def getLastMessage_def
        lastMessage_def)
  have setStatus: "createdThen s i (\<lambda>c. if st = Ready then c else setStatus st e c)
      (setStatus_store i st e s)"
    using stored_back [OF assms, of "\<lambda>c. setStatus st e c"]
    by (auto simp: new fresh setStatus_store_def)
  have remove: "createdThen s i (\<lambda>c. c) (snd (removeAssistantResponse_store i s))"
    using stored_back [OF assms, of "\<lambda>c. c"]
    by (simp add: new fresh removeAssistantResponse_store_def removeAssistantResponse_def
        lastMessage_def)
  have clients: "createdThen s i (setMessages ms) (setMessages_store i ms s)"
    "createdThen s i (submitMessage env opts m) (submitMessage_store env i opts m s)"
    "createdThen s i (resubmitLastUserMessage env opts) (resubmitLastUserMessage_store env i opts s)"
    "createdThen s i (resumeStream env opts) (resumeStream_store env i opts s)"
    "createdThen s i (addToolResult env tcid r) (addToolResult_store env i tcid r s)"
    "createdThen s i stopStream (stopStream_store i s)"
    by (simp_all add: onClient_new [OF assms] setMessages_store_def submitMessage_store_def
        resubmitLastUserMessage_store_def resumeStream_store_def addToolResult_store_def
        stopStream_store_def)
  from fresh readers setStatus remove clients show ?thesis by simp
qed

theorem getClient_creates_chat_witness:
  "\<not> hasChat \<lparr>chats = fmempty\<rparr> ''c''
   \<and> hasChat (snd (getStatus \<lparr>chats = fmempty\<rparr> ''c'')) ''c''
   \<and> chatCount \<lparr>chats = fmempty\<rparr> = 0
   \<and> chatCount (snd (getStatus \<lparr>chats = fmempty\<rparr> ''c'')) = 1
   \<and> fst (getStatus \<lparr>chats = fmempty\<rparr> ''c'') = Ready
   \<and> hasChat (stopStream_store ''c'' \<lparr>chats = fmempty\<rparr>) ''c''
   \<and> chatCount (stopStream_store ''c'' \<lparr>chats = fmempty\<rparr>) = 1
   \<and> fmlookup (chats (stopStream_store ''c'' \<lparr>chats = fmempty\<rparr>)) ''c''
       = Some (newChatClient ''c'' [])"
  using getClient_creates_chat [of "\<lparr>chats = fmempty\<rparr>" "''c''"]
  by (simp add: hasChat_def createdThen_def chatCount_def stopStream_def newChatClient_def)

end
